theory Spec2Isabelle
  imports Complex_Main "HOL-Library.Multiset"
begin

section \<open>The smart-run recommendation engine (internal/engine)\<close>

text \<open>
  A shallow embedding of \<^verbatim>\<open>internal/engine/engine.go\<close>, \<^verbatim>\<open>practical.go\<close> and
  \<^verbatim>\<open>smart.go\<close>. Conventions of the embedding:

  \<^item> \<^verbatim>\<open>float64\<close> is modelled by \<open>real\<close> (no rounding, no NaN, no infinities).
  \<^item> \<^verbatim>\<open>time.Time\<close> is an instant (nanoseconds since the Unix epoch) together with the
    UTC offset, in seconds, of its location; the offset is taken as constant over the
    civil day of the instant (exact for UTC and every fixed-offset location).
  \<^item> the result of \<^verbatim>\<open>t.Format("2006-01-02")\<close> is represented by the civil day number of
    \<open>t\<close> in its location (days since 1970-01-01), so the two maps keyed by date string
    are maps keyed by that day number.
  \<^item> strings built with \<^verbatim>\<open>fmt.Sprintf\<close> are kept as structured values holding the
    arguments of the format string.
  \<^item> \<^verbatim>\<open>sort.Slice\<close> belongs to the Go library, whose documentation promises a sorted
    permutation and explicitly no stability; it is a parameter of \<open>BestWindows\<close>.
  \<^item> reads of the clock (\<^verbatim>\<open>time.Now()\<close>) are explicit arguments.
  \<^item> record fields carry a prefix naming their struct (\<open>ps_Start\<close> is
    \<^verbatim>\<open>PriceSlot.Start\<close>), since several structs share field names.
\<close>

subsection \<open>time.Time\<close>

record gotime =
  instant :: int
  utcOffset :: int

definition nsPerSecond :: int where
  "nsPerSecond = 1000000000"

definition nsPerMinute :: int where
  "nsPerMinute = 60 * nsPerSecond"

definition nsPerHour :: int where
  "nsPerHour = 60 * nsPerMinute"

definition nsPerDay :: int where
  "nsPerDay = 24 * nsPerHour"

definition timeBefore :: "gotime \<Rightarrow> gotime \<Rightarrow> bool" where
  "timeBefore t u = (instant t < instant u)"

definition timeAfter :: "gotime \<Rightarrow> gotime \<Rightarrow> bool" where
  "timeAfter t u = (instant t > instant u)"

definition timeEqual :: "gotime \<Rightarrow> gotime \<Rightarrow> bool" where
  "timeEqual t u = (instant t = instant u)"

definition timeAdd :: "gotime \<Rightarrow> int \<Rightarrow> gotime" where
  "timeAdd t d = t\<lparr>instant := instant t + d\<rparr>"

text \<open>Nanoseconds since 1970-01-01 00:00 read on the wall clock of the location of \<open>t\<close>.\<close>

definition wallNanos :: "gotime \<Rightarrow> int" where
  "wallNanos t = instant t + utcOffset t * nsPerSecond"

text \<open>The civil date of \<open>t\<close> (\<^verbatim>\<open>t.Year(), t.Month(), t.Day()\<close>) as a day number.\<close>

definition dayNumber :: "gotime \<Rightarrow> int" where
  "dayNumber t = wallNanos t div nsPerDay"

definition timeOfDay :: "gotime \<Rightarrow> int" where
  "timeOfDay t = wallNanos t mod nsPerDay"

text \<open>\<^verbatim>\<open>int(t.Weekday())\<close>: Sunday is 0; 1970-01-01 was a Thursday.\<close>

definition Weekday :: "gotime \<Rightarrow> int" where
  "Weekday t = (dayNumber t + 4) mod 7"

text \<open>\<^verbatim>\<open>time.Date(t.Year(), t.Month(), t.Day(), h, m, 0, 0, t.Location())\<close>\<close>

definition timeDateOn :: "gotime \<Rightarrow> nat \<Rightarrow> nat \<Rightarrow> gotime" where
  "timeDateOn t h m =
     \<lparr>instant = dayNumber t * nsPerDay + int h * nsPerHour + int m * nsPerMinute
                 - utcOffset t * nsPerSecond,
      utcOffset = utcOffset t\<rparr>"

text \<open>\<^verbatim>\<open>t.AddDate(0, 0, days)\<close>\<close>

definition timeAddDate :: "gotime \<Rightarrow> int \<Rightarrow> gotime" where
  "timeAddDate t days = timeAdd t (days * nsPerDay)"

subsection \<open>Domain types (types.go)\<close>

record priceSlot =
  ps_Start :: gotime
  ps_End :: gotime
  ps_PencePerKWh :: real
  ps_IncludesVAT :: bool

record timeWindow =
  tw_Start :: string
  tw_End :: string
  tw_DaysOfWeek :: "int list"

record constraints =
  c_Allowed :: "timeWindow list"
  c_Blocked :: "timeWindow list"
  c_QuietHours :: "timeWindow list"
  c_FinishBy :: "gotime option"
  c_StartBy :: "gotime option"
  c_PriceCapPence :: "real option"
  c_NoiseLevel :: int

record options =
  o_EstKWh :: real
  o_CarbonWeight :: real
  o_PVWeight :: real

text \<open>
  The text of \<^verbatim>\<open>Recommendation.Reason\<close>: the band chosen by \<^verbatim>\<open>generateReason\<close> and the
  number handed to its format string; \<open>NoReason\<close> is the empty string.
\<close>

datatype reason = NoReason | Excellent real | Good real | Moderate | Higher real

record recommendation =
  r_Start :: gotime
  r_End :: gotime
  r_CostGBP :: real
  r_Reason :: reason
  r_Score :: real

record weatherForecast =
  wf_Date :: gotime
  wf_SunshineHours :: real
  wf_MaxTempC :: real
  wf_MinTempC :: real
  wf_PrecipProb :: real
  wf_IsSunny :: bool

definition ControlManual :: string where
  "ControlManual = ''manual''"

definition ControlSmart :: string where
  "ControlSmart = ''smart''"

definition ClassStandalone :: string where
  "ClassStandalone = ''standalone''"

definition ClassCoupled :: string where
  "ClassCoupled = ''coupled''"

definition ClassWeatherDependent :: string where
  "ClassWeatherDependent = ''weather_dependent''"

record appliance =
  a_ID :: string
  a_Name :: string
  a_CycleMinutes :: int
  a_ToleranceMinutes :: int
  a_AllowedWindows :: "timeWindow list"
  a_BlockedWindows :: "timeWindow list"
  a_FinishBy :: "gotime option"
  a_StartBy :: "gotime option"
  a_NoiseLevel :: int
  a_PriceCapPencePerKWh :: "real option"
  a_Priority :: int
  a_EstKWh :: real
  a_Enabled :: bool
  a_ControlType :: string
  a_UsageFrequency :: string
  a_Class :: string
  a_CoupledApplianceID :: string
  a_CanWaitDays :: int

record household =
  h_ID :: string
  h_Name :: string
  h_Region :: string
  h_Latitude :: real
  h_Longitude :: real
  h_QuietHours :: "timeWindow list"
  h_BlockedWindows :: "timeWindow list"
  h_AvailableHours :: "timeWindow list"
  h_StaggerHeavyLoads :: bool
  h_CarbonWeight :: real

datatype error =
    ErrInvalidInput
  | ErrNoFeasibleSlots
  | ErrUnsupportedClass
  | ErrNoFeasibleSlotsFound
  | ErrNoFeasibleOptions
  | PanicNilPointer

subsection \<open>Time windows (engine.go)\<close>

definition isDigit :: "char \<Rightarrow> bool" where
  "isDigit c = (48 \<le> (of_char c :: nat) \<and> (of_char c :: nat) \<le> 57)"

definition digitVal :: "char \<Rightarrow> nat" where
  "digitVal c = of_char c - 48"

text \<open>
  \<^verbatim>\<open>parseTimeOfDay\<close> is \<^verbatim>\<open>time.Parse("15:04", s)\<close>: an hour of one or two digits below 24,
  a colon, a minute of exactly two digits below 60, and nothing else. Only the hour and
  the minute of the parsed time are read by the caller.
\<close>

definition parseTimeOfDay :: "string \<Rightarrow> (nat \<times> nat) option" where
  "parseTimeOfDay s =
     (case s of
        [] \<Rightarrow> None
      | c1 # r1 \<Rightarrow>
          if \<not> isDigit c1 then None
          else
            let (hour, r2) =
                  (case r1 of
                     [] \<Rightarrow> (digitVal c1, [])
                   | c2 # r \<Rightarrow>
                       if isDigit c2 then (10 * digitVal c1 + digitVal c2, r)
                       else (digitVal c1, r1))
            in if 24 \<le> hour then None
               else
                 (case r2 of
                    [colon, m1, m2] \<Rightarrow>
                      if colon = CHR '':'' \<and> isDigit m1 \<and> isDigit m2
                         \<and> 10 * digitVal m1 + digitVal m2 < 60
                      then Some (hour, 10 * digitVal m1 + digitVal m2)
                      else None
                  | _ \<Rightarrow> None))"

text \<open>The loop over \<^verbatim>\<open>window.DaysOfWeek\<close> in \<^verbatim>\<open>matchesTimeWindow\<close>.\<close>

fun dayMatches :: "int \<Rightarrow> int list \<Rightarrow> bool" where
  "dayMatches weekday [] = False"
| "dayMatches weekday (d # ds) = (if d = weekday then True else dayMatches weekday ds)"

definition matchesTimeWindow :: "gotime \<Rightarrow> timeWindow \<Rightarrow> bool" where
  "matchesTimeWindow t window =
     (if length (tw_DaysOfWeek window) > 0
         \<and> \<not> dayMatches (if Weekday t = 0 then 7 else Weekday t) (tw_DaysOfWeek window)
      then False
      else
        (case parseTimeOfDay (tw_Start window) of
           None \<Rightarrow> False
         | Some (sh, sm) \<Rightarrow>
             (case parseTimeOfDay (tw_End window) of
                None \<Rightarrow> False
              | Some (eh, em) \<Rightarrow>
                  let todayStart = timeDateOn t sh sm;
                      todayEnd0 = timeDateOn t eh em;
                      todayEnd = (if timeBefore todayEnd0 todayStart
                                  then timeAdd todayEnd0 (24 * nsPerHour) else todayEnd0)
                  in (timeEqual t todayStart \<or> timeAfter t todayStart)
                     \<and> timeBefore t todayEnd)))"

fun isInTimeWindows :: "gotime \<Rightarrow> timeWindow list \<Rightarrow> bool" where
  "isInTimeWindows t [] = False"
| "isInTimeWindows t (w # windows) =
     (if matchesTimeWindow t w then True else isInTimeWindows t windows)"

subsection \<open>Constraint filter (engine.go)\<close>

text \<open>One iteration of the loop of \<^verbatim>\<open>filterByConstraints\<close>: does the slot reach \<^verbatim>\<open>append\<close>?\<close>

definition slotSkipped :: "constraints \<Rightarrow> priceSlot \<Rightarrow> bool" where
  "slotSkipped c slot =
     (if (case c_PriceCapPence c of None \<Rightarrow> False | Some cap \<Rightarrow> ps_PencePerKWh slot > cap)
      then True
      else if length (c_Allowed c) > 0 \<and> \<not> isInTimeWindows (ps_Start slot) (c_Allowed c)
      then True
      else if length (c_Blocked c) > 0 \<and> isInTimeWindows (ps_Start slot) (c_Blocked c)
      then True
      else if c_NoiseLevel c \<ge> 3 \<and> length (c_QuietHours c) > 0
              \<and> isInTimeWindows (ps_Start slot) (c_QuietHours c)
      then True
      else if (case c_StartBy c of None \<Rightarrow> False | Some sb \<Rightarrow> timeAfter (ps_Start slot) sb)
      then True
      else if (case c_FinishBy c of None \<Rightarrow> False | Some fb \<Rightarrow> timeAfter (ps_End slot) fb)
      then True
      else False)"

fun filterByConstraints :: "priceSlot list \<Rightarrow> constraints \<Rightarrow> priceSlot list" where
  "filterByConstraints [] c = []"
| "filterByConstraints (slot # slots) c =
     (if slotSkipped c slot then filterByConstraints slots c
      else slot # filterByConstraints slots c)"

subsection \<open>Window search (engine.go)\<close>

text \<open>The loop of \<^verbatim>\<open>isContiguous\<close>, comparing each slot with its predecessor.\<close>

fun isContiguous :: "priceSlot list \<Rightarrow> bool" where
  "isContiguous [] = True"
| "isContiguous [s] = True"
| "isContiguous (prev # s # slots) =
     (if \<not> timeEqual (ps_Start s) (ps_End prev) then False else isContiguous (s # slots))"

text \<open>
  The scan of \<^verbatim>\<open>generateReason\<close> over the sorted prices: the first index \<open>i\<close> whose price
  is at least the average gives \<open>i / n\<close>; when there is none the initial value 0 stays.
\<close>

fun percentileScan :: "real \<Rightarrow> nat \<Rightarrow> nat \<Rightarrow> real list \<Rightarrow> real" where
  "percentileScan avgPence n i [] = 0"
| "percentileScan avgPence n i (p # ps) =
     (if avgPence \<le> p then real i / real n else percentileScan avgPence n (Suc i) ps)"

definition generateReason :: "priceSlot list \<Rightarrow> real \<Rightarrow> priceSlot list \<Rightarrow> reason" where
  "generateReason window totalPence allSlots =
     (let allPrices = sort (map ps_PencePerKWh allSlots);
          avgPence = totalPence / real (length window);
          percentile = percentileScan avgPence (length allPrices) 0 allPrices
      in if percentile < 0.2 then Excellent (percentile * 100)
         else if percentile < 0.4 then Good (percentile * 100)
         else if percentile < 0.6 then Moderate
         else Higher (percentile * 100))"

text \<open>The inner loop of \<^verbatim>\<open>BestWindows\<close> accumulating \<^verbatim>\<open>totalPence\<close> from 0.\<close>

definition windowTotalPence :: "options \<Rightarrow> nat \<Rightarrow> priceSlot list \<Rightarrow> real" where
  "windowTotalPence opts requiredSlots window =
     foldl (\<lambda>totalPence slot.
              totalPence + ps_PencePerKWh slot * (o_EstKWh opts / real requiredSlots))
       0 window"

text \<open>The Recommendation built for a contiguous window (never empty where it is used).\<close>

definition windowRecommendation ::
  "priceSlot list \<Rightarrow> options \<Rightarrow> nat \<Rightarrow> priceSlot list \<Rightarrow> recommendation" where
  "windowRecommendation slots opts requiredSlots window =
     (let totalPence = windowTotalPence opts requiredSlots window
      in \<lparr>r_Start = ps_Start (hd window),
          r_End = ps_End (last window),
          r_CostGBP = totalPence / 100,
          r_Reason = generateReason window totalPence slots,
          r_Score = totalPence\<rparr>)"

text \<open>
  The loop \<^verbatim>\<open>for i := 0; i+requiredSlots <= len(feasible); i++\<close>, started at \<open>i\<close>; the
  result lists the candidates appended from \<open>i\<close> on, in the order of appending.
\<close>

function candidatesFrom ::
  "priceSlot list \<Rightarrow> options \<Rightarrow> nat \<Rightarrow> priceSlot list \<Rightarrow> nat \<Rightarrow> recommendation list" where
  "candidatesFrom slots opts requiredSlots feasible i =
     (if i + requiredSlots \<le> length feasible
      then
        (let window = take requiredSlots (drop i feasible)
         in if \<not> isContiguous window
            then candidatesFrom slots opts requiredSlots feasible (Suc i)
            else windowRecommendation slots opts requiredSlots window
                 # candidatesFrom slots opts requiredSlots feasible (Suc i))
      else [])"
  by pat_completeness auto
termination
  by (relation "measure (\<lambda>(slots, opts, requiredSlots, feasible, i). Suc (length feasible) - i)")
     auto

declare candidatesFrom.simps [simp del]

definition requiredSlotsFor :: "int \<Rightarrow> nat" where
  "requiredSlotsFor runMinutes = nat \<lceil>real_of_int runMinutes / 30\<rceil>"

text \<open>
  \<open>sortSlice\<close> stands for \<^verbatim>\<open>sort.Slice(candidates, func(i, j) { Score[i] < Score[j] })\<close>.
  What the library promises of it is \<open>sortsByScore\<close>: the result is a permutation of the
  argument in which no element has a smaller score than an earlier one. The order of
  elements of equal score is left open by the library.
\<close>

definition sortsByScore :: "(recommendation list \<Rightarrow> recommendation list) \<Rightarrow> bool" where
  "sortsByScore sortSlice =
     (\<forall>xs. mset (sortSlice xs) = mset xs \<and> sorted (map r_Score (sortSlice xs)))"

definition BestWindows ::
  "(recommendation list \<Rightarrow> recommendation list) \<Rightarrow> priceSlot list \<Rightarrow> int \<Rightarrow> constraints
     \<Rightarrow> options \<Rightarrow> int \<Rightarrow> error + recommendation list" where
  "BestWindows sortSlice slots runMinutes c opts topN0 =
     (if length slots = 0 then Inl ErrInvalidInput
      else if runMinutes \<le> 0 then Inl ErrInvalidInput
      else
        let topN = (if topN0 \<le> 0 then 3 else topN0);
            requiredSlots = requiredSlotsFor runMinutes;
            feasible = filterByConstraints slots c
        in if length feasible < requiredSlots then Inl ErrNoFeasibleSlots
           else
             let candidates = candidatesFrom slots opts requiredSlots feasible 0
             in if length candidates = 0 then Inl ErrNoFeasibleSlots
                else
                  let sorted_candidates = sortSlice candidates
                  in if int (length sorted_candidates) > topN
                     then Inr (take (nat topN) sorted_candidates)
                     else Inr sorted_candidates)"

subsection \<open>Practical constraint adapter (practical.go)\<close>

text \<open>The function writes through its \<^verbatim>\<open>*Constraints\<close> argument; the model returns the new value.\<close>

definition ApplyPracticalConstraints ::
  "appliance \<Rightarrow> household \<Rightarrow> constraints \<Rightarrow> constraints" where
  "ApplyPracticalConstraints a h c =
     (if a_ControlType a = ControlManual
      then
        (if length (h_AvailableHours h) > 0
         then c\<lparr>c_Allowed := h_AvailableHours h\<rparr>
         else c\<lparr>c_Allowed :=
                  [\<lparr>tw_Start = ''07:00'', tw_End = ''23:30'',
                    tw_DaysOfWeek = [1, 2, 3, 4, 5, 6, 7]\<rparr>]\<rparr>)
      else c)"

subsection \<open>Smart recommendation orchestrator (smart.go)\<close>

text \<open>
  The text of \<^verbatim>\<open>RecommendationOption.Recommendation\<close>: which of the three format strings
  was used, with its arguments in order.
\<close>

datatype optionText =
    BestTimeText gotime gotime
  | TumbleDryText gotime gotime gotime real
  | LineDryText gotime gotime real real

record recommendationOption =
  ro_Day :: string
  ro_Date :: gotime
  ro_PrimarySlot :: recommendation
  ro_CoupledSlot :: "recommendation option"
  ro_TotalCostGBP :: real
  ro_Weather :: "weatherForecast option"
  ro_UsesNaturalDry :: bool
  ro_SavingsVsToday :: real
  ro_Recommendation :: optionText

record smartRecommendation =
  sr_ApplianceName :: string
  sr_Options :: "recommendationOption list"
  sr_BestOptionIndex :: nat

definition startsWithin :: "gotime \<Rightarrow> gotime \<Rightarrow> priceSlot \<Rightarrow> bool" where
  "startsWithin start end' p =
     ((timeEqual (ps_Start p) start \<or> timeAfter (ps_Start p) start)
      \<and> timeBefore (ps_Start p) end')"

definition estimateCost :: "priceSlot list \<Rightarrow> gotime \<Rightarrow> gotime \<Rightarrow> real \<Rightarrow> real" where
  "estimateCost prices start end' kwh =
     (let slots = foldl (\<lambda>n p. if startsWithin start end' p then Suc n else n) 0 prices
      in if slots = 0 then 0
         else
           let kwhPerSlot = kwh / real slots;
               totalCostPence =
                 foldl (\<lambda>total p. if startsWithin start end' p
                                   then total + ps_PencePerKWh p * kwhPerSlot else total)
                   0 prices
           in totalCostPence / 100)"

definition weekdayName :: "int \<Rightarrow> string" where
  "weekdayName w =
     [''Sunday'', ''Monday'', ''Tuesday'', ''Wednesday'', ''Thursday'', ''Friday'',
      ''Saturday''] ! nat w"

text \<open>\<open>nowLabel\<close> is the clock as read inside \<^verbatim>\<open>getDayName\<close>.\<close>

definition getDayName :: "gotime \<Rightarrow> int \<Rightarrow> string" where
  "getDayName nowLabel dayOffset =
     (if dayOffset = 0 then ''Today''
      else if dayOffset = 1 then ''Tomorrow''
      else weekdayName (Weekday (timeAddDate nowLabel dayOffset)))"

text \<open>\<open>now\<close> is the clock as read by \<^verbatim>\<open>time.Now()\<close> at the start of the function.\<close>

definition generateStandaloneRecommendation ::
  "(recommendation list \<Rightarrow> recommendation list) \<Rightarrow> gotime \<Rightarrow> appliance
     \<Rightarrow> (int \<rightharpoonup> priceSlot list) \<Rightarrow> household \<Rightarrow> constraints \<Rightarrow> options
     \<Rightarrow> error + smartRecommendation" where
  "generateStandaloneRecommendation sortSlice now a pricesByDay h c opts =
     (let today = dayNumber now;
          opts0 =
            (case pricesByDay today of
               None \<Rightarrow> []
             | Some prices \<Rightarrow>
                 (case BestWindows sortSlice prices (a_CycleMinutes a) c opts 1 of
                    Inl err \<Rightarrow> []
                  | Inr [] \<Rightarrow> []
                  | Inr (rec0 # recs) \<Rightarrow>
                      [\<lparr>ro_Day = ''Today'',
                        ro_Date = r_Start rec0,
                        ro_PrimarySlot = rec0,
                        ro_CoupledSlot = None,
                        ro_TotalCostGBP = r_CostGBP rec0,
                        ro_Weather = None,
                        ro_UsesNaturalDry = False,
                        ro_SavingsVsToday = 0,
                        ro_Recommendation = BestTimeText (r_Start rec0) (r_End rec0)\<rparr>]))
      in if length opts0 = 0 then Inl ErrNoFeasibleSlotsFound
         else Inr \<lparr>sr_ApplianceName = a_Name a, sr_Options = opts0,
                   sr_BestOptionIndex = 0\<rparr>)"

text \<open>Option 1 of the day loop, built when a dryer is given.\<close>

definition tumbleDryOption ::
  "string \<Rightarrow> gotime \<Rightarrow> recommendation \<Rightarrow> appliance \<Rightarrow> priceSlot list
     \<Rightarrow> weatherForecast option \<Rightarrow> recommendationOption list \<Rightarrow> recommendationOption" where
  "tumbleDryOption dayName checkDate washerSlot dryer prices weather opts0 =
     (let dryerStart = r_End washerSlot;
          dryerEnd = timeAdd dryerStart (a_CycleMinutes dryer * nsPerMinute);
          dryerCost = estimateCost prices dryerStart dryerEnd (a_EstKWh dryer);
          totalCost = r_CostGBP washerSlot + dryerCost
      in \<lparr>ro_Day = dayName,
          ro_Date = checkDate,
          ro_PrimarySlot = washerSlot,
          ro_CoupledSlot =
            Some \<lparr>r_Start = dryerStart, r_End = dryerEnd, r_CostGBP = dryerCost,
                  r_Reason = NoReason, r_Score = 0\<rparr>,
          ro_TotalCostGBP = totalCost,
          ro_Weather = weather,
          ro_UsesNaturalDry = False,
          ro_SavingsVsToday =
            (if length opts0 > 0 then ro_TotalCostGBP (opts0 ! 0) - totalCost else 0),
          ro_Recommendation =
            TumbleDryText (r_Start washerSlot) (r_End washerSlot) dryerEnd totalCost\<rparr>)"

text \<open>Option 2 of the day loop, built on a sunny day for a weather-dependent dryer.\<close>

definition lineDryOption ::
  "string \<Rightarrow> gotime \<Rightarrow> recommendation \<Rightarrow> weatherForecast option
     \<Rightarrow> recommendationOption list \<Rightarrow> recommendationOption" where
  "lineDryOption dayName checkDate washerSlot weather opts0 =
     (let savings =
            (if length opts0 > 0 then ro_TotalCostGBP (opts0 ! 0) - r_CostGBP washerSlot
             else 0)
      in \<lparr>ro_Day = dayName,
          ro_Date = checkDate,
          ro_PrimarySlot = washerSlot,
          ro_CoupledSlot = None,
          ro_TotalCostGBP = r_CostGBP washerSlot,
          ro_Weather = weather,
          ro_UsesNaturalDry = True,
          ro_SavingsVsToday = savings,
          ro_Recommendation =
            LineDryText (r_Start washerSlot) (r_End washerSlot) (r_CostGBP washerSlot)
              savings\<rparr>)"

text \<open>
  The body of the day loop of \<^verbatim>\<open>generateCoupledRecommendation\<close>: the options slice after
  the iteration for \<open>dayOffset\<close>. A map entry of \<open>weatherByDay\<close> holds a pointer, which may be
  nil (\<open>Some None\<close>); reading \<^verbatim>\<open>weather.IsSunny\<close> through it panics.
\<close>

definition coupledDay ::
  "(recommendation list \<Rightarrow> recommendation list) \<Rightarrow> gotime \<Rightarrow> gotime \<Rightarrow> appliance
     \<Rightarrow> appliance option \<Rightarrow> (int \<rightharpoonup> priceSlot list) \<Rightarrow> (int \<rightharpoonup> weatherForecast option)
     \<Rightarrow> constraints \<Rightarrow> options \<Rightarrow> int \<Rightarrow> recommendationOption list
     \<Rightarrow> error + recommendationOption list" where
  "coupledDay sortSlice now nowLabel washer dryer pricesByDay weatherByDay washerConstraints
     washerOpts dayOffset opts0 =
     (let checkDate = timeAddDate now dayOffset;
          dateStr = dayNumber checkDate
      in case pricesByDay dateStr of
           None \<Rightarrow> Inr opts0
         | Some prices \<Rightarrow>
             (case BestWindows sortSlice prices (a_CycleMinutes washer) washerConstraints
                     washerOpts 1 of
                Inl err \<Rightarrow> Inr opts0
              | Inr [] \<Rightarrow> Inr opts0
              | Inr (washerSlot # recs) \<Rightarrow>
                  let dayName = getDayName nowLabel dayOffset;
                      hasWeather = (weatherByDay dateStr \<noteq> None);
                      weather = (case weatherByDay dateStr of None \<Rightarrow> None | Some w \<Rightarrow> w);
                      opts1 =
                        (case dryer of
                           None \<Rightarrow> opts0
                         | Some d \<Rightarrow>
                             opts0 @ [tumbleDryOption dayName checkDate washerSlot d prices
                                        weather opts0])
                  in if \<not> hasWeather then Inr opts1
                     else
                       (case weather of
                          None \<Rightarrow> Inl PanicNilPointer
                        | Some w \<Rightarrow>
                            if wf_IsSunny w
                               \<and> (case dryer of
                                    None \<Rightarrow> False
                                  | Some d \<Rightarrow> a_Class d = ClassWeatherDependent)
                            then Inr (opts1 @ [lineDryOption dayName checkDate washerSlot
                                                 weather opts1])
                            else Inr opts1)))"

text \<open>The loop \<^verbatim>\<open>for dayOffset := 0; dayOffset < daysToCheck; dayOffset++\<close> around a body.\<close>

function dayLoop ::
  "(int \<Rightarrow> recommendationOption list \<Rightarrow> error + recommendationOption list) \<Rightarrow> int \<Rightarrow> int
     \<Rightarrow> recommendationOption list \<Rightarrow> error + recommendationOption list" where
  "dayLoop body daysToCheck dayOffset opts0 =
     (if dayOffset < daysToCheck
      then (case body dayOffset opts0 of
              Inl err \<Rightarrow> Inl err
            | Inr opts1 \<Rightarrow> dayLoop body daysToCheck (dayOffset + 1) opts1)
      else Inr opts0)"
  by pat_completeness auto
termination
  by (relation "measure (\<lambda>(body, daysToCheck, dayOffset, opts0). nat (daysToCheck - dayOffset))")
     auto

declare dayLoop.simps [simp del]

text \<open>The loop \<^verbatim>\<open>for i := 1; i < len(options); i++\<close> that selects \<^verbatim>\<open>bestIdx\<close>.\<close>

function bestIndexLoop :: "recommendationOption list \<Rightarrow> nat \<Rightarrow> nat \<Rightarrow> nat" where
  "bestIndexLoop opts0 i bestIdx =
     (if i < length opts0
      then bestIndexLoop opts0 (Suc i)
             (if ro_TotalCostGBP (opts0 ! i) < ro_TotalCostGBP (opts0 ! bestIdx) then i
              else bestIdx)
      else bestIdx)"
  by pat_completeness auto
termination
  by (relation "measure (\<lambda>(opts0, i, bestIdx). length opts0 - i)") auto

declare bestIndexLoop.simps [simp del]

definition daysToCheckFor :: "appliance \<Rightarrow> int" where
  "daysToCheckFor washer =
     (let d0 = a_CanWaitDays washer;
          d1 = (if d0 = 0 then 1 else d0)
      in if d1 > 3 then 3 else d1)"

definition generateCoupledRecommendation ::
  "(recommendation list \<Rightarrow> recommendation list) \<Rightarrow> gotime \<Rightarrow> gotime \<Rightarrow> appliance
     \<Rightarrow> appliance option \<Rightarrow> (int \<rightharpoonup> priceSlot list) \<Rightarrow> (int \<rightharpoonup> weatherForecast option)
     \<Rightarrow> household \<Rightarrow> constraints \<Rightarrow> options \<Rightarrow> error + smartRecommendation" where
  "generateCoupledRecommendation sortSlice now nowLabel washer dryer pricesByDay weatherByDay
     h washerConstraints washerOpts =
     (case dayLoop (coupledDay sortSlice now nowLabel washer dryer pricesByDay weatherByDay
                      washerConstraints washerOpts)
             (daysToCheckFor washer) 0 [] of
        Inl err \<Rightarrow> Inl err
      | Inr opts0 \<Rightarrow>
          if length opts0 = 0 then Inl ErrNoFeasibleOptions
          else Inr \<lparr>sr_ApplianceName = a_Name washer, sr_Options = opts0,
                    sr_BestOptionIndex = bestIndexLoop opts0 1 0\<rparr>)"

definition GenerateSmartRecommendations ::
  "(recommendation list \<Rightarrow> recommendation list) \<Rightarrow> gotime \<Rightarrow> gotime \<Rightarrow> appliance
     \<Rightarrow> appliance option \<Rightarrow> (int \<rightharpoonup> priceSlot list) \<Rightarrow> (int \<rightharpoonup> weatherForecast option)
     \<Rightarrow> household \<Rightarrow> constraints \<Rightarrow> options \<Rightarrow> error + smartRecommendation" where
  "GenerateSmartRecommendations sortSlice now nowLabel a coupledAppliance pricesByDay
     weatherByDay h c opts =
     (if a_Class a = ClassStandalone
      then generateStandaloneRecommendation sortSlice now a pricesByDay h c opts
      else if a_Class a = ClassCoupled \<and> coupledAppliance \<noteq> None
      then generateCoupledRecommendation sortSlice now nowLabel a coupledAppliance pricesByDay
             weatherByDay h c opts
      else Inl ErrUnsupportedClass)"

section \<open>Specification-side notions\<close>


text \<open>The run of \<open>requiredSlots\<close> feasible slots that starts at index \<open>i\<close>.\<close>

definition windowAt :: "nat \<Rightarrow> priceSlot list \<Rightarrow> nat \<Rightarrow> priceSlot list" where
  "windowAt requiredSlots feasible i = take requiredSlots (drop i feasible)"

definition hasContiguousRun :: "nat \<Rightarrow> priceSlot list \<Rightarrow> bool" where
  "hasContiguousRun requiredSlots feasible =
     (\<exists>i. i + requiredSlots \<le> length feasible
          \<and> isContiguous (windowAt requiredSlots feasible i))"

text \<open>Index \<open>k\<close> holds a minimum of the list and no earlier index does.\<close>

definition firstMinimum :: "nat \<Rightarrow> real list \<Rightarrow> bool" where
  "firstMinimum k xs =
     (k < length xs \<and> (\<forall>j < length xs. xs ! k \<le> xs ! j) \<and> (\<forall>j < k. xs ! k < xs ! j))"

text \<open>A loop body that, when it returns, only appends to the options it was given.\<close>

definition appendsOnly ::
  "(int \<Rightarrow> recommendationOption list \<Rightarrow> error + recommendationOption list) \<Rightarrow> bool" where
  "appendsOnly body = (\<forall>j o1 o2. body j o1 = Inr o2 \<longrightarrow> (\<exists>ys. o2 = o1 @ ys))"


section \<open>Example data\<close>

text \<open>
  The slots of \<^verbatim>\<open>TestBestWindows\<close>: 48 half-hour slots from 2024-12-01 00:00 UTC (a Sunday,
  day number 20058), slot \<open>i\<close> starting \<open>i\<close> half hours after midnight.
\<close>

definition testBase :: gotime where
  "testBase = \<lparr>instant = 1733011200 * nsPerSecond, utcOffset = 0\<rparr>"

definition testSlot :: "int \<Rightarrow> real \<Rightarrow> priceSlot" where
  "testSlot i price =
     \<lparr>ps_Start = timeAdd testBase (i * 30 * nsPerMinute),
      ps_End = timeAdd testBase ((i + 1) * 30 * nsPerMinute),
      ps_PencePerKWh = price,
      ps_IncludesVAT = True\<rparr>"

definition testPrices :: "real list" where
  "testPrices =
     [15, 14, 13, 12, 11, 10, 9, 8, 12, 13, 15, 18, 20, 22, 24, 26, 25, 24, 23, 22,
      21, 20, 19, 18, 17, 16, 15, 14, 13, 12, 11, 10, 15, 18, 20, 25, 30, 35, 40, 38,
      35, 30, 25, 20, 18, 16, 15, 14]"

definition testSlots :: "priceSlot list" where
  "testSlots =
     map (\<lambda>(i, price). testSlot (int i) price) (zip [0..<length testPrices] testPrices)"

definition noConstraints :: constraints where
  "noConstraints =
     \<lparr>c_Allowed = [], c_Blocked = [], c_QuietHours = [], c_FinishBy = None, c_StartBy = None,
      c_PriceCapPence = None, c_NoiseLevel = 0\<rparr>"

text \<open>The constraints of the test case "60 minute run with quiet hours".\<close>

definition quietConstraints :: constraints where
  "quietConstraints =
     noConstraints\<lparr>c_NoiseLevel := 4,
       c_QuietHours := [\<lparr>tw_Start = ''22:00'', tw_End = ''07:00'', tw_DaysOfWeek = []\<rparr>]\<rparr>"

definition testOptions :: "real \<Rightarrow> options" where
  "testOptions kwh = \<lparr>o_EstKWh = kwh, o_CarbonWeight = 0, o_PVWeight = 0\<rparr>"

text \<open>The window 03:00 to 04:00 over the test slots 6 and 7 (9p and 8p), for 1 kWh.\<close>

definition nightRun :: recommendation where
  "nightRun =
     \<lparr>r_Start = timeAdd testBase (3 * nsPerHour), r_End = timeAdd testBase (4 * nsPerHour),
      r_CostGBP = 17 / 200, r_Reason = Excellent 0, r_Score = 17 / 2\<rparr>"

definition exampleAppliance ::
  "string \<Rightarrow> string \<Rightarrow> string \<Rightarrow> int \<Rightarrow> real \<Rightarrow> int \<Rightarrow> appliance" where
  "exampleAppliance name control cls cycleMinutes kwh canWaitDays =
     \<lparr>a_ID = name, a_Name = name, a_CycleMinutes = cycleMinutes, a_ToleranceMinutes = 0,
      a_AllowedWindows = [], a_BlockedWindows = [], a_FinishBy = None, a_StartBy = None,
      a_NoiseLevel = 1, a_PriceCapPencePerKWh = None, a_Priority = 1, a_EstKWh = kwh,
      a_Enabled = True, a_ControlType = control, a_UsageFrequency = ''daily'',
      a_Class = cls, a_CoupledApplianceID = [], a_CanWaitDays = canWaitDays\<rparr>"

definition exampleWasher :: appliance where
  "exampleWasher = exampleAppliance ''Washing Machine'' ControlManual ClassCoupled 60 1 1"

definition exampleDryer :: appliance where
  "exampleDryer = exampleAppliance ''Dryer'' ControlSmart ClassWeatherDependent 60 2 0"


definition exampleHousehold :: household where
  "exampleHousehold =
     \<lparr>h_ID = ''home'', h_Name = ''Home'', h_Region = ''C'', h_Latitude = 51.5,
      h_Longitude = 0, h_QuietHours = [], h_BlockedWindows = [], h_AvailableHours = [],
      h_StaggerHeavyLoads = False, h_CarbonWeight = 0\<rparr>"

definition sunnyForecast :: weatherForecast where
  "sunnyForecast =
     \<lparr>wf_Date = testBase, wf_SunshineHours = 6, wf_MaxTempC = 15, wf_MinTempC = 8,
      wf_PrecipProb = 10, wf_IsSunny = True\<rparr>"

definition sunnyWeather :: "int \<rightharpoonup> weatherForecast option" where
  "sunnyWeather = Map.empty(20058 \<mapsto> Some sunnyForecast)"

definition threeSlotPrices :: "int \<rightharpoonup> priceSlot list" where
  "threeSlotPrices = Map.empty(20058 \<mapsto> [testSlot 0 10, testSlot 1 10, testSlot 2 30])"

definition twoSlotPrices :: "int \<rightharpoonup> priceSlot list" where
  "twoSlotPrices = Map.empty(20058 \<mapsto> [testSlot 0 10, testSlot 1 10])"

text \<open>The wash from 00:00 to 01:00 over two slots of 10p, for 1 kWh.\<close>

definition midnightWash :: recommendation where
  "midnightWash =
     \<lparr>r_Start = testBase, r_End = timeAdd testBase nsPerHour, r_CostGBP = 1 / 10,
      r_Reason = Excellent 0, r_Score = 10\<rparr>"




section \<open>Constraint filter\<close>


lemma filterByConstraints_filter:
  "filterByConstraints slots c = filter (\<lambda>s. \<not> slotSkipped c s) slots"
  by (induction slots) auto




text \<open>
  Claim C8. \<open>filterByConstraints\<close> is idempotent: filtering its own output again with the
  same constraints returns that output unchanged.
\<close>

theorem filterByConstraints_idempotent:
  "filterByConstraints (filterByConstraints slots c) c = filterByConstraints slots c"
  by (simp add: filterByConstraints_filter)

text \<open>Witness for C8 on the four slots above, two of which are dropped.\<close>

theorem filterByConstraints_idempotent_witness:
  "filterByConstraints [testSlot 43 20, testSlot 6 9] (quietConstraints\<lparr>c_PriceCapPence := Some 20\<rparr>)
     = [testSlot 43 20, testSlot 6 9]"
proof -
  have "filterByConstraints [testSlot 43 20, testSlot 44 18, testSlot 6 9, testSlot 20 21]
          (quietConstraints\<lparr>c_PriceCapPence := Some 20\<rparr>) = [testSlot 43 20, testSlot 6 9]"
    by code_simp
  with filterByConstraints_idempotent
         [of "[testSlot 43 20, testSlot 44 18, testSlot 6 9, testSlot 20 21]"
             "quietConstraints\<lparr>c_PriceCapPence := Some 20\<rparr>"]
  show ?thesis by simp
qed

section \<open>Practical constraint adapter\<close>

text \<open>
  Claim C7. With a manual-control appliance \<open>ApplyPracticalConstraints\<close> sets the allowed
  windows to the household's available hours when that list is non-empty and otherwise to
  the single window 07:00 to 23:30 on the days 1 to 7, and leaves blocked, quietHours,
  finishBy, startBy, priceCap and noiseLevel unchanged; with a smart-control appliance it
  leaves the constraints unchanged.
\<close>

theorem ApplyPracticalConstraints_effect:
  "(a_ControlType a = ControlManual \<longrightarrow>
      c_Allowed (ApplyPracticalConstraints a h c)
        = (if h_AvailableHours h \<noteq> [] then h_AvailableHours h
           else [\<lparr>tw_Start = ''07:00'', tw_End = ''23:30'',
                   tw_DaysOfWeek = [1, 2, 3, 4, 5, 6, 7]\<rparr>])
      \<and> c_Blocked (ApplyPracticalConstraints a h c) = c_Blocked c
      \<and> c_QuietHours (ApplyPracticalConstraints a h c) = c_QuietHours c
      \<and> c_FinishBy (ApplyPracticalConstraints a h c) = c_FinishBy c
      \<and> c_StartBy (ApplyPracticalConstraints a h c) = c_StartBy c
      \<and> c_PriceCapPence (ApplyPracticalConstraints a h c) = c_PriceCapPence c
      \<and> c_NoiseLevel (ApplyPracticalConstraints a h c) = c_NoiseLevel c)
   \<and> (a_ControlType a = ControlSmart \<longrightarrow> ApplyPracticalConstraints a h c = c)"
  by (simp add: ApplyPracticalConstraints_def ControlManual_def ControlSmart_def)

text \<open>
  Witness for C7: the manual washer in a household without available hours gets the
  default window and keeps its quiet hours; the smart dryer keeps its constraints.
\<close>

theorem ApplyPracticalConstraints_effect_witness:
  "a_ControlType exampleWasher = ControlManual
   \<and> a_ControlType exampleDryer = ControlSmart
   \<and> c_Allowed (ApplyPracticalConstraints exampleWasher exampleHousehold quietConstraints)
        = [\<lparr>tw_Start = ''07:00'', tw_End = ''23:30'', tw_DaysOfWeek = [1, 2, 3, 4, 5, 6, 7]\<rparr>]
   \<and> c_QuietHours (ApplyPracticalConstraints exampleWasher exampleHousehold quietConstraints)
        = c_QuietHours quietConstraints
   \<and> ApplyPracticalConstraints exampleDryer exampleHousehold quietConstraints = quietConstraints"
proof -
  have m: "a_ControlType exampleWasher = ControlManual"
    by (simp add: exampleWasher_def exampleAppliance_def)
  have s: "a_ControlType exampleDryer = ControlSmart"
    by (simp add: exampleDryer_def exampleAppliance_def)
  have e: "h_AvailableHours exampleHousehold = []"
    by (simp add: exampleHousehold_def)
  from ApplyPracticalConstraints_effect [of exampleWasher exampleHousehold quietConstraints]
       ApplyPracticalConstraints_effect [of exampleDryer exampleHousehold quietConstraints]
       m s e
  show ?thesis by simp
qed

section \<open>Window search\<close>

subsection \<open>The candidate loop and the library sort\<close>

lemma candidatesFrom_unfold:
  "candidatesFrom slots opts req feasible i =
     map (\<lambda>j. windowRecommendation slots opts req (windowAt req feasible j))
       (filter (\<lambda>j. isContiguous (windowAt req feasible j)) [i..<Suc (length feasible) - req])"
proof (induction slots opts req feasible i rule: candidatesFrom.induct)
  case (1 slots opts req feasible i)
  show ?case
  proof (cases "i + req \<le> length feasible")
    case True
    then have up: "[i..<Suc (length feasible) - req] = i # [Suc i..<Suc (length feasible) - req]"
      by (simp add: upt_conv_Cons)
    show ?thesis
    proof (cases "isContiguous (take req (drop i feasible))")
      case c: True
      from "1.IH"(2)[OF True refl] c have
        "candidatesFrom slots opts req feasible (Suc i) =
          map (\<lambda>j. windowRecommendation slots opts req (windowAt req feasible j))
           (filter (\<lambda>j. isContiguous (windowAt req feasible j))
              [Suc i..<Suc (length feasible) - req])"
        by simp
      with True c up show ?thesis
        by (subst candidatesFrom.simps) (simp add: windowAt_def)
    next
      case c: False
      from "1.IH"(1)[OF True refl] c have
        "candidatesFrom slots opts req feasible (Suc i) =
          map (\<lambda>j. windowRecommendation slots opts req (windowAt req feasible j))
           (filter (\<lambda>j. isContiguous (windowAt req feasible j))
              [Suc i..<Suc (length feasible) - req])"
        by simp
      with True c up show ?thesis
        by (subst candidatesFrom.simps) (simp add: windowAt_def)
    qed
  next
    case False
    then have "[i..<Suc (length feasible) - req] = []" by simp
    with False show ?thesis by (subst candidatesFrom.simps) simp
  qed
qed

lemma candidatesFrom_empty_iff:
  "candidatesFrom slots opts req feasible 0 = [] \<longleftrightarrow> \<not> hasContiguousRun req feasible"
proof -
  have "candidatesFrom slots opts req feasible 0 = [] \<longleftrightarrow>
        (\<forall>j \<in> set [0..<Suc (length feasible) - req]. \<not> isContiguous (windowAt req feasible j))"
    by (simp add: candidatesFrom_unfold filter_empty_conv)
  also have "\<dots> \<longleftrightarrow> \<not> hasContiguousRun req feasible"
    by (auto simp: hasContiguousRun_def)
  finally show ?thesis .
qed

lemma foldl_add_sum_list:
  "foldl (\<lambda>acc x. acc + f x) z xs = z + sum_list (map f xs)"
  for z :: real
  by (induction xs arbitrary: z) (auto simp: algebra_simps)

lemma windowTotalPence_sum:
  "windowTotalPence opts req window
     = (\<Sum>s\<leftarrow>window. ps_PencePerKWh s * (o_EstKWh opts / real req))"
  by (simp add: windowTotalPence_def foldl_add_sum_list)

lemma sortsByScore_set: "sortsByScore srt \<Longrightarrow> set (srt xs) = set xs"
  by (metis sortsByScore_def set_mset_mset)

lemma sortsByScore_length: "sortsByScore srt \<Longrightarrow> length (srt xs) = length xs"
  by (metis sortsByScore_def size_mset)


text \<open>The library's stable insertion sort by score meets the contract.\<close>

lemma sortsByScore_sort_key: "sortsByScore (sort_key r_Score)"
  by (simp add: sortsByScore_def)



text \<open>The control flow of \<open>BestWindows\<close>, with the truncation written as \<open>take\<close>.\<close>

lemma BestWindows_cases:
  "BestWindows srt slots runMinutes c opts topN =
     (if slots = [] \<or> runMinutes \<le> 0 then Inl ErrInvalidInput
      else if length (filterByConstraints slots c) < requiredSlotsFor runMinutes
              \<or> candidatesFrom slots opts (requiredSlotsFor runMinutes)
                    (filterByConstraints slots c) 0 = []
      then Inl ErrNoFeasibleSlots
      else Inr (take (nat (if topN \<le> 0 then 3 else topN))
             (srt (candidatesFrom slots opts (requiredSlotsFor runMinutes)
                     (filterByConstraints slots c) 0))))"
proof -
  have tk: "(if int (length xs) > n then take (nat n) xs else xs) = take (nat n) xs"
    for xs :: "recommendation list" and n :: int
    by simp
  show ?thesis
    unfolding BestWindows_def Let_def tk by simp
qed

text \<open>A quiet-hours run over the test slots of 03:00 and 03:30, used by the witnesses.\<close>

lemma BestWindows_nightRun:
  "BestWindows (sort_key r_Score) [testSlot 6 9, testSlot 7 8] 60 quietConstraints
     (testOptions 1) 3 = Inr [nightRun]"
  by code_simp

subsection \<open>Errors of the search\<close>

text \<open>
  Claim C3. \<open>BestWindows\<close> returns the InvalidInput error if and only if the slot list is
  empty or \<open>runMinutes \<le> 0\<close>; otherwise it returns the NoFeasibleSlots error if and only
  if fewer feasible slots survive the filter than the required count
  \<open>\<lceil>runMinutes / 30\<rceil>\<close> or no contiguous run of that many feasible slots exists; in
  every other case it returns a non-empty list of recommendations. (\<open>sortSlice\<close> is any
  function meeting the contract of the library sort.)
\<close>

theorem BestWindows_errors:
  assumes "sortsByScore sortSlice"
  shows "(BestWindows sortSlice slots runMinutes c opts topN = Inl ErrInvalidInput
            \<longleftrightarrow> slots = [] \<or> runMinutes \<le> 0)
       \<and> (\<not> (slots = [] \<or> runMinutes \<le> 0) \<longrightarrow>
            (BestWindows sortSlice slots runMinutes c opts topN = Inl ErrNoFeasibleSlots
               \<longleftrightarrow> length (filterByConstraints slots c) < requiredSlotsFor runMinutes
                   \<or> \<not> hasContiguousRun (requiredSlotsFor runMinutes)
                          (filterByConstraints slots c)))
       \<and> (\<not> (slots = [] \<or> runMinutes \<le> 0)
            \<and> \<not> (length (filterByConstraints slots c) < requiredSlotsFor runMinutes
                   \<or> \<not> hasContiguousRun (requiredSlotsFor runMinutes)
                          (filterByConstraints slots c))
            \<longrightarrow> (\<exists>recs. BestWindows sortSlice slots runMinutes c opts topN = Inr recs
                        \<and> recs \<noteq> []))"
proof -
  let ?cands = "candidatesFrom slots opts (requiredSlotsFor runMinutes)
                  (filterByConstraints slots c) 0"
  have ne: "take (nat (if topN \<le> 0 then 3 else topN)) (sortSlice ?cands) \<noteq> []"
    if "?cands \<noteq> []"
  proof -
    from that assms have "sortSlice ?cands \<noteq> []"
      by (metis sortsByScore_length length_0_conv)
    moreover have "nat (if topN \<le> 0 then 3 else topN) \<noteq> 0" by simp
    ultimately show ?thesis by (simp add: take_eq_Nil)
  qed
  show ?thesis
    using ne by (simp add: BestWindows_cases candidatesFrom_empty_iff)
qed

text \<open>
  Witness for C3: two contiguous feasible slots for a 60 minute run give a non-empty
  result and neither error.
\<close>

theorem BestWindows_errors_witness:
  "(\<exists>recs. BestWindows (sort_key r_Score) [testSlot 6 9, testSlot 7 8] 60 quietConstraints
              (testOptions 1) 3 = Inr recs \<and> recs \<noteq> [])
   \<and> BestWindows (sort_key r_Score) [testSlot 6 9, testSlot 7 8] 60 quietConstraints
        (testOptions 1) 3 \<noteq> Inl ErrInvalidInput
   \<and> BestWindows (sort_key r_Score) [testSlot 6 9, testSlot 7 8] 60 quietConstraints
        (testOptions 1) 3 \<noteq> Inl ErrNoFeasibleSlots"
proof -
  let ?slots = "[testSlot 6 9, testSlot 7 8]"
  have h1: "\<not> (?slots = [] \<or> (60::int) \<le> 0)" by simp
  have "0 + requiredSlotsFor 60 \<le> length (filterByConstraints ?slots quietConstraints)
        \<and> isContiguous (windowAt (requiredSlotsFor 60)
                           (filterByConstraints ?slots quietConstraints) 0)"
    by code_simp
  then have run: "hasContiguousRun (requiredSlotsFor 60)
                    (filterByConstraints ?slots quietConstraints)"
    unfolding hasContiguousRun_def by blast
  have len: "\<not> length (filterByConstraints ?slots quietConstraints) < requiredSlotsFor 60"
    by code_simp
  from BestWindows_errors [OF sortsByScore_sort_key, of ?slots 60 quietConstraints
         "testOptions 1" 3] h1 run len
  show ?thesis by simp
qed

subsection \<open>Score and cost\<close>

text \<open>
  Claim C4. Every Recommendation returned by \<open>BestWindows\<close> is built from a contiguous run
  of \<open>requiredSlots\<close> feasible slots (the run starting at some index \<open>i\<close> of the filtered
  sequence): it starts with the run and ends with it, its score is the sum over the run's
  slots of \<open>price * (estimatedEnergyUnits / requiredSlots)\<close>, and its cost is the score
  divided by 100.
\<close>

theorem BestWindows_score_cost:
  assumes "sortsByScore sortSlice"
      and "BestWindows sortSlice slots runMinutes c opts topN = Inr recs"
      and "r \<in> set recs"
  shows "\<exists>i. i + requiredSlotsFor runMinutes \<le> length (filterByConstraints slots c)
           \<and> isContiguous
                (windowAt (requiredSlotsFor runMinutes) (filterByConstraints slots c) i)
           \<and> r_Start r
               = ps_Start (hd (windowAt (requiredSlotsFor runMinutes)
                                 (filterByConstraints slots c) i))
           \<and> r_End r
               = ps_End (last (windowAt (requiredSlotsFor runMinutes)
                                 (filterByConstraints slots c) i))
           \<and> r_Score r
               = (\<Sum>s\<leftarrow>windowAt (requiredSlotsFor runMinutes) (filterByConstraints slots c) i.
                    ps_PencePerKWh s * (o_EstKWh opts / real (requiredSlotsFor runMinutes)))
           \<and> r_CostGBP r = r_Score r / 100"
proof -
  let ?req = "requiredSlotsFor runMinutes"
  let ?feasible = "filterByConstraints slots c"
  let ?cands = "candidatesFrom slots opts ?req ?feasible 0"
  from assms(2) have "recs = take (nat (if topN \<le> 0 then 3 else topN)) (sortSlice ?cands)"
    by (simp add: BestWindows_cases split: if_splits)
  with assms(3) have "r \<in> set (sortSlice ?cands)"
    by (auto dest: in_set_takeD)
  with assms(1) have "r \<in> set ?cands"
    by (simp add: sortsByScore_set)
  then obtain i where i: "i < Suc (length ?feasible) - ?req"
      "isContiguous (windowAt ?req ?feasible i)"
      "r = windowRecommendation slots opts ?req (windowAt ?req ?feasible i)"
    by (auto simp: candidatesFrom_unfold)
  from i(1) have "i + ?req \<le> length ?feasible" by simp
  moreover from i(3) have "r_Start r = ps_Start (hd (windowAt ?req ?feasible i))"
      "r_End r = ps_End (last (windowAt ?req ?feasible i))"
      "r_Score r = (\<Sum>s\<leftarrow>windowAt ?req ?feasible i.
                      ps_PencePerKWh s * (o_EstKWh opts / real ?req))"
      "r_CostGBP r = r_Score r / 100"
    by (simp_all add: windowRecommendation_def Let_def windowTotalPence_sum)
  ultimately show ?thesis using i(2) by blast
qed

text \<open>
  Witness for C4: the run 03:00 to 04:00 over slots of 9p and 8p for 1 kWh scores
  \<open>9 * (1 / 2) + 8 * (1 / 2) = 17 / 2\<close> pence and costs \<open>17 / 200\<close> pounds.
\<close>

theorem BestWindows_score_cost_witness:
  "r_Score nightRun = 17 / 2 \<and> r_CostGBP nightRun = 17 / 200
   \<and> (\<exists>i. i + requiredSlotsFor 60
              \<le> length (filterByConstraints [testSlot 6 9, testSlot 7 8] quietConstraints)
         \<and> r_Score nightRun
             = (\<Sum>s\<leftarrow>windowAt (requiredSlotsFor 60)
                      (filterByConstraints [testSlot 6 9, testSlot 7 8] quietConstraints) i.
                  ps_PencePerKWh s * (o_EstKWh (testOptions 1) / real (requiredSlotsFor 60)))
         \<and> r_CostGBP nightRun = r_Score nightRun / 100)"
proof -
  have "nightRun \<in> set [nightRun]" by simp
  from BestWindows_score_cost [OF sortsByScore_sort_key BestWindows_nightRun this]
  obtain i where
    "i + requiredSlotsFor 60
       \<le> length (filterByConstraints [testSlot 6 9, testSlot 7 8] quietConstraints)"
    "r_Score nightRun
       = (\<Sum>s\<leftarrow>windowAt (requiredSlotsFor 60)
                (filterByConstraints [testSlot 6 9, testSlot 7 8] quietConstraints) i.
            ps_PencePerKWh s * (o_EstKWh (testOptions 1) / real (requiredSlotsFor 60)))"
    "r_CostGBP nightRun = r_Score nightRun / 100"
    by blast
  moreover have "r_Score nightRun = 17 / 2" "r_CostGBP nightRun = 17 / 200"
    by (simp_all add: nightRun_def)
  ultimately show ?thesis by blast
qed

subsection \<open>Order of the result\<close>





section \<open>Smart recommendation orchestrator\<close>

subsection \<open>The day loop\<close>

lemma dayLoop_extends:
  "appendsOnly body \<Longrightarrow> dayLoop body n i o0 = Inr oF \<Longrightarrow> \<exists>ys. oF = o0 @ ys"
proof (induction body n i o0 rule: dayLoop.induct)
  case (1 body n i o0)
  note ext = "1.prems"(1)
  show ?case
  proof (cases "i < n")
    case True
    with "1.prems"(2) obtain o1 where b: "body i o0 = Inr o1"
       and l: "dayLoop body n (i + 1) o1 = Inr oF"
      by (subst (asm) dayLoop.simps) (auto split: sum.splits)
    from "1.IH"[OF True b ext l] obtain ys where "oF = o1 @ ys" by blast
    moreover from ext b obtain zs where "o1 = o0 @ zs"
      unfolding appendsOnly_def by blast
    ultimately show ?thesis by simp
  next
    case False
    with "1.prems"(2) show ?thesis by (subst (asm) dayLoop.simps) simp
  qed
qed

text \<open>Every day below the bound is visited, and what its iteration returns is kept.\<close>

lemma dayLoop_visits:
  "appendsOnly body \<Longrightarrow> dayLoop body n i o0 = Inr oF \<Longrightarrow> i \<le> j \<Longrightarrow> j < n
     \<Longrightarrow> \<exists>o1 o2 ys. body j o1 = Inr o2 \<and> oF = o2 @ ys"
proof (induction body n i o0 rule: dayLoop.induct)
  case (1 body n i o0)
  note ext = "1.prems"(1)
  from "1.prems" have True: "i < n" by simp
  with "1.prems"(2) obtain o1 where b: "body i o0 = Inr o1"
     and l: "dayLoop body n (i + 1) o1 = Inr oF"
    by (subst (asm) dayLoop.simps) (auto split: sum.splits)
  show ?case
  proof (cases "i = j")
    case True
    from dayLoop_extends[OF ext l] obtain ys where "oF = o1 @ ys" by blast
    with b True show ?thesis by blast
  next
    case False
    with "1.prems" have "i + 1 \<le> j" by simp
    from "1.IH"[OF True b ext l this "1.prems"(4)] show ?thesis .
  qed
qed

text \<open>The loop fails only with a failure of its body.\<close>

lemma dayLoop_error:
  "dayLoop body n i o0 = Inl e \<Longrightarrow> \<exists>j o1. body j o1 = Inl e"
proof (induction body n i o0 rule: dayLoop.induct)
  case (1 body n i o0)
  show ?case
  proof (cases "i < n")
    case True
    show ?thesis
    proof (cases "body i o0")
      case (Inl e')
      with True "1.prems" have "e' = e" by (subst (asm) dayLoop.simps) simp
      with Inl show ?thesis by blast
    next
      case (Inr o1)
      with True "1.prems" have "dayLoop body n (i + 1) o1 = Inl e"
        by (subst (asm) dayLoop.simps) simp
      from "1.IH"[OF True Inr this] show ?thesis .
    qed
  next
    case False
    with "1.prems" show ?thesis by (subst (asm) dayLoop.simps) simp
  qed
qed

subsection \<open>The selection of the best option\<close>

lemma bestIndexLoop_firstMinimum:
  "b < i \<Longrightarrow> i \<le> length opts0
     \<Longrightarrow> \<forall>j < i. ro_TotalCostGBP (opts0 ! b) \<le> ro_TotalCostGBP (opts0 ! j)
     \<Longrightarrow> \<forall>j < b. ro_TotalCostGBP (opts0 ! b) < ro_TotalCostGBP (opts0 ! j)
     \<Longrightarrow> firstMinimum (bestIndexLoop opts0 i b) (map ro_TotalCostGBP opts0)"
proof (induction opts0 i b rule: bestIndexLoop.induct)
  case (1 opts0 i b)
  show ?case
  proof (cases "i < length opts0")
    case False
    with "1.prems" have "i = length opts0" by simp
    with False "1.prems" show ?thesis
      by (subst bestIndexLoop.simps) (simp add: firstMinimum_def)
  next
    case True
    let ?b' = "if ro_TotalCostGBP (opts0 ! i) < ro_TotalCostGBP (opts0 ! b) then i else b"
    have p1: "?b' < Suc i" using "1.prems"(1) by simp
    have p2: "Suc i \<le> length opts0" using True by simp
    have p3: "\<forall>j < Suc i. ro_TotalCostGBP (opts0 ! ?b') \<le> ro_TotalCostGBP (opts0 ! j)"
      using "1.prems"(3) by (auto simp: less_Suc_eq intro: order_trans less_imp_le)
    have p4: "\<forall>j < ?b'. ro_TotalCostGBP (opts0 ! ?b') < ro_TotalCostGBP (opts0 ! j)"
      using "1.prems"(1,3,4) by (auto intro: less_le_trans)
    from "1.IH"[OF True p1 p2 p3 p4] True show ?thesis
      by (subst bestIndexLoop.simps) simp
  qed
qed

lemma bestIndexLoop_start:
  "opts0 \<noteq> [] \<Longrightarrow> firstMinimum (bestIndexLoop opts0 1 0) (map ro_TotalCostGBP opts0)"
  by (rule bestIndexLoop_firstMinimum) (auto simp: less_Suc_eq_le Suc_le_eq)

subsection \<open>One day of the coupled path\<close>

lemma coupledDay_appendsOnly:
  "appendsOnly (coupledDay srt now nowLabel washer dryer P W c opts)"
  unfolding appendsOnly_def coupledDay_def Let_def
  by (auto split: option.splits sum.splits list.splits if_splits)

lemma coupledDay_error:
  "coupledDay srt now nowLabel washer dryer P W c opts j o1 = Inl e
     \<Longrightarrow> e = PanicNilPointer \<and> None \<in> ran W"
  unfolding coupledDay_def Let_def
  by (auto split: option.splits sum.splits list.splits if_splits intro: ranI)

lemma coupledDay_feasible:
  assumes "P (dayNumber (timeAddDate now j)) = Some prices"
      and "BestWindows srt prices (a_CycleMinutes washer) c opts 1 = Inr (washerSlot # recs)"
      and "coupledDay srt now nowLabel washer (Some d) P W c opts j o1 = Inr o2"
  shows "\<exists>zs. o2 = o1 @ tumbleDryOption (getDayName nowLabel j) (timeAddDate now j) washerSlot
                         d prices
                         (case W (dayNumber (timeAddDate now j)) of
                            None \<Rightarrow> None | Some w \<Rightarrow> w) o1 # zs"
  using assms unfolding coupledDay_def Let_def
  by (auto split: option.splits if_splits)

lemma coupledDay_sunny:
  assumes "P (dayNumber (timeAddDate now j)) = Some prices"
      and "BestWindows srt prices (a_CycleMinutes washer) c opts 1 = Inr (washerSlot # recs)"
      and "W (dayNumber (timeAddDate now j)) = Some (Some fc)" and "wf_IsSunny fc"
      and "a_Class d = ClassWeatherDependent"
      and "coupledDay srt now nowLabel washer (Some d) P W c opts j o1 = Inr o2"
  shows "\<exists>ys. o2 = ys @ [lineDryOption (getDayName nowLabel j) (timeAddDate now j) washerSlot
                           (Some fc) ys]"
  using assms unfolding coupledDay_def Let_def
  by (auto split: option.splits if_splits)

lemma generateCoupled_cases:
  "generateCoupledRecommendation srt now nowLabel washer dryer P W h c opts = R \<Longrightarrow>
     (R = Inl PanicNilPointer \<and> None \<in> ran W)
     \<or> (R = Inl ErrNoFeasibleOptions
          \<and> dayLoop (coupledDay srt now nowLabel washer dryer P W c opts)
               (daysToCheckFor washer) 0 [] = Inr [])
     \<or> (\<exists>oF. oF \<noteq> []
          \<and> dayLoop (coupledDay srt now nowLabel washer dryer P W c opts)
               (daysToCheckFor washer) 0 [] = Inr oF
          \<and> R = Inr \<lparr>sr_ApplianceName = a_Name washer, sr_Options = oF,
                      sr_BestOptionIndex = bestIndexLoop oF 1 0\<rparr>)"
  unfolding generateCoupledRecommendation_def
  by (auto split: sum.splits if_splits dest!: dayLoop_error coupledDay_error)

text \<open>
  On a checked day with prices and a feasible primary window the call either panics on a
  nil forecast pointer or returns the options, among them those of that day's iteration.
\<close>

lemma coupled_result_on_feasible_day:
  assumes cls: "a_Class washer = ClassCoupled"
      and day: "0 \<le> j" "j < daysToCheckFor washer"
      and pr: "P (dayNumber (timeAddDate now j)) = Some prices"
      and bw: "BestWindows srt prices (a_CycleMinutes washer) c opts 1 = Inr (washerSlot # recs)"
  shows "(GenerateSmartRecommendations srt now nowLabel washer (Some d) P W h c opts
            = Inl PanicNilPointer
          \<and> None \<in> ran W)
       \<or> (\<exists>oF o1 o2 ys. oF \<noteq> []
             \<and> coupledDay srt now nowLabel washer (Some d) P W c opts j o1 = Inr o2
             \<and> oF = o2 @ ys
             \<and> GenerateSmartRecommendations srt now nowLabel washer (Some d) P W h c opts
                 = Inr \<lparr>sr_ApplianceName = a_Name washer, sr_Options = oF,
                        sr_BestOptionIndex = bestIndexLoop oF 1 0\<rparr>)"
proof -
  let ?body = "coupledDay srt now nowLabel washer (Some d) P W c opts"
  let ?G = "GenerateSmartRecommendations srt now nowLabel washer (Some d) P W h c opts"
  let ?R = "generateCoupledRecommendation srt now nowLabel washer (Some d) P W h c opts"
  from cls have G: "?G = ?R"
    by (simp add: GenerateSmartRecommendations_def ClassCoupled_def ClassStandalone_def)
  have visit: "\<exists>o1 o2 ys. ?body j o1 = Inr o2 \<and> oF = o2 @ ys \<and> oF \<noteq> []"
    if "dayLoop ?body (daysToCheckFor washer) 0 [] = Inr oF" for oF
  proof -
    from dayLoop_visits[OF coupledDay_appendsOnly that day]
    obtain o1 o2 ys where v: "?body j o1 = Inr o2" "oF = o2 @ ys" by blast
    from coupledDay_feasible[OF pr bw v(1)] have "o2 \<noteq> []" by auto
    with v show ?thesis by blast
  qed
  from generateCoupled_cases[OF refl, of srt now nowLabel washer "Some d" P W h c opts]
  consider
      (panic) "?R = Inl PanicNilPointer" "None \<in> ran W"
    | (empty) "dayLoop ?body (daysToCheckFor washer) 0 [] = Inr []"
    | (ok) oF where "oF \<noteq> []" "dayLoop ?body (daysToCheckFor washer) 0 [] = Inr oF"
        "?R = Inr \<lparr>sr_ApplianceName = a_Name washer, sr_Options = oF,
                    sr_BestOptionIndex = bestIndexLoop oF 1 0\<rparr>"
    by blast
  then show ?thesis
  proof cases
    case panic
    then show ?thesis by (simp add: G)
  next
    case empty
    from visit[OF empty] show ?thesis by simp
  next
    case ok
    from visit[OF ok(2)] obtain o1 o2 ys where "?body j o1 = Inr o2" "oF = o2 @ ys" by blast
    with ok(1,3) show ?thesis unfolding G by blast
  qed
qed

subsection \<open>The successor's cost\<close>

lemma foldl_count:
  "foldl (\<lambda>n p. if Q p then Suc n else n) k ps = k + length (filter Q ps)"
  by (induction ps arbitrary: k) auto

lemma estimateCost_none:
  assumes "\<forall>p \<in> set prices. \<not> startsWithin start end' p"
  shows "estimateCost prices start end' kwh = 0"
proof -
  from assms have "filter (startsWithin start end') prices = []"
    by (simp add: filter_empty_conv)
  then show ?thesis
    by (simp add: estimateCost_def foldl_count)
qed

subsection \<open>Line drying and the best option\<close>

text \<open>
  Claim C6. For a coupled appliance paired with a successor of class weatherDependent: on
  every checked day (\<open>0 \<le> dayOffset < daysToCheck\<close>) whose price data yields a primary
  window \<open>washerSlot\<close> and for which a forecast with \<open>isSunny\<close> exists, the call returns
  a result that includes a line-dry option whose total cost is the primary slot's cost
  alone and whose \<open>usesNaturalDry\<close> flag is set (the only other outcome is the panic on a
  nil forecast pointer stored in the weather map); and in every returned result
  \<open>bestOptionIndex\<close> is the index of the first option of minimal total cost.
\<close>

theorem coupled_line_dry_and_best_option:
  assumes "a_Class washer = ClassCoupled" and "a_Class dryer = ClassWeatherDependent"
  shows "(0 \<le> dayOffset \<and> dayOffset < daysToCheckFor washer
            \<and> pricesByDay (dayNumber (timeAddDate now dayOffset)) = Some prices
            \<and> BestWindows sortSlice prices (a_CycleMinutes washer) c opts 1
                = Inr (washerSlot # recs)
            \<and> weatherByDay (dayNumber (timeAddDate now dayOffset)) = Some (Some forecast)
            \<and> wf_IsSunny forecast
          \<longrightarrow> (\<exists>res. GenerateSmartRecommendations sortSlice now nowLabel washer (Some dryer)
                         pricesByDay weatherByDay h c opts = Inr res
                     \<and> (\<exists>opt \<in> set (sr_Options res).
                           ro_UsesNaturalDry opt
                           \<and> ro_TotalCostGBP opt = r_CostGBP washerSlot
                           \<and> ro_PrimarySlot opt = washerSlot
                           \<and> ro_CoupledSlot opt = None
                           \<and> ro_Date opt = timeAddDate now dayOffset))
              \<or> (GenerateSmartRecommendations sortSlice now nowLabel washer (Some dryer)
                     pricesByDay weatherByDay h c opts = Inl PanicNilPointer
                  \<and> None \<in> ran weatherByDay))
       \<and> (\<forall>res. GenerateSmartRecommendations sortSlice now nowLabel washer (Some dryer)
                    pricesByDay weatherByDay h c opts = Inr res
                \<longrightarrow> firstMinimum (sr_BestOptionIndex res)
                      (map ro_TotalCostGBP (sr_Options res)))"
proof (intro conjI impI allI)
  let ?G = "GenerateSmartRecommendations sortSlice now nowLabel washer (Some dryer)
              pricesByDay weatherByDay h c opts"
  {
    fix res assume r: "?G = Inr res"
    from assms(1) have "?G = generateCoupledRecommendation sortSlice now nowLabel washer
                               (Some dryer) pricesByDay weatherByDay h c opts"
      by (simp add: GenerateSmartRecommendations_def ClassCoupled_def ClassStandalone_def)
    with r generateCoupled_cases[OF refl, of sortSlice now nowLabel washer "Some dryer"
              pricesByDay weatherByDay h c opts]
    obtain oF where "oF \<noteq> []" "res = \<lparr>sr_ApplianceName = a_Name washer, sr_Options = oF,
                      sr_BestOptionIndex = bestIndexLoop oF 1 0\<rparr>"
      by auto
    then show "firstMinimum (sr_BestOptionIndex res) (map ro_TotalCostGBP (sr_Options res))"
      using bestIndexLoop_start[of oF] by simp
  }
  assume a: "0 \<le> dayOffset \<and> dayOffset < daysToCheckFor washer
            \<and> pricesByDay (dayNumber (timeAddDate now dayOffset)) = Some prices
            \<and> BestWindows sortSlice prices (a_CycleMinutes washer) c opts 1
                = Inr (washerSlot # recs)
            \<and> weatherByDay (dayNumber (timeAddDate now dayOffset)) = Some (Some forecast)
            \<and> wf_IsSunny forecast"
  then have day: "0 \<le> dayOffset" "dayOffset < daysToCheckFor washer"
    and pr: "pricesByDay (dayNumber (timeAddDate now dayOffset)) = Some prices"
    and bw: "BestWindows sortSlice prices (a_CycleMinutes washer) c opts 1
               = Inr (washerSlot # recs)"
    and we: "weatherByDay (dayNumber (timeAddDate now dayOffset)) = Some (Some forecast)"
    and su: "wf_IsSunny forecast"
    by simp_all
  from coupled_result_on_feasible_day[where P = pricesByDay and W = weatherByDay
          and nowLabel = nowLabel and d = dryer and h = h, OF assms(1) day pr bw]
  consider (panic) "?G = Inl PanicNilPointer" "None \<in> ran weatherByDay"
    | (ok) oF o1 o2 ys where
        "coupledDay sortSlice now nowLabel washer (Some dryer) pricesByDay weatherByDay c opts
           dayOffset o1 = Inr o2"
        "oF = o2 @ ys"
        "?G = Inr \<lparr>sr_ApplianceName = a_Name washer, sr_Options = oF,
                    sr_BestOptionIndex = bestIndexLoop oF 1 0\<rparr>"
    by blast
  then show "(\<exists>res. ?G = Inr res
                     \<and> (\<exists>opt \<in> set (sr_Options res).
                           ro_UsesNaturalDry opt
                           \<and> ro_TotalCostGBP opt = r_CostGBP washerSlot
                           \<and> ro_PrimarySlot opt = washerSlot
                           \<and> ro_CoupledSlot opt = None
                           \<and> ro_Date opt = timeAddDate now dayOffset))
              \<or> (?G = Inl PanicNilPointer \<and> None \<in> ran weatherByDay)"
  proof cases
    case panic
    then show ?thesis by simp
  next
    case ok
    from coupledDay_sunny[OF pr bw we su assms(2) ok(1)] obtain zs where
      "o2 = zs @ [lineDryOption (getDayName nowLabel dayOffset) (timeAddDate now dayOffset)
                    washerSlot (Some forecast) zs]"
      by blast
    with ok(2) have
      "lineDryOption (getDayName nowLabel dayOffset) (timeAddDate now dayOffset)
                    washerSlot (Some forecast) zs \<in> set oF"
      by simp
    moreover have "ro_UsesNaturalDry (lineDryOption dn cd washerSlot w zs)
        \<and> ro_TotalCostGBP (lineDryOption dn cd washerSlot w zs) = r_CostGBP washerSlot
        \<and> ro_PrimarySlot (lineDryOption dn cd washerSlot w zs) = washerSlot
        \<and> ro_CoupledSlot (lineDryOption dn cd washerSlot w zs) = None
        \<and> ro_Date (lineDryOption dn cd washerSlot w zs) = cd" for dn cd w
      by (simp add: lineDryOption_def Let_def)
    ultimately show ?thesis using ok(3) by (intro disjI1) (simp, blast)
  qed
qed

lemma exampleWasher_class: "a_Class exampleWasher = ClassCoupled"
  by (simp add: exampleWasher_def exampleAppliance_def)

lemma exampleDryer_class: "a_Class exampleDryer = ClassWeatherDependent"
  by (simp add: exampleDryer_def exampleAppliance_def)

lemma sunnyWeather_no_nil: "None \<notin> ran sunnyWeather"
  by (simp add: sunnyWeather_def)

text \<open>
  Witness for C6: a washer with prices 10p, 10p, 30p on a sunny day. The result holds a
  line-dry option at the wash's cost of 0.10 pounds, and its best index is a first minimum.
\<close>

theorem coupled_line_dry_and_best_option_witness:
  "\<exists>res. GenerateSmartRecommendations (sort_key r_Score) testBase testBase exampleWasher
           (Some exampleDryer) threeSlotPrices sunnyWeather exampleHousehold noConstraints
           (testOptions 1) = Inr res
     \<and> (\<exists>opt \<in> set (sr_Options res). ro_UsesNaturalDry opt \<and> ro_TotalCostGBP opt = 1 / 10)
     \<and> firstMinimum (sr_BestOptionIndex res) (map ro_TotalCostGBP (sr_Options res))"
proof -
  have hyp: "0 \<le> (0::int) \<and> 0 < daysToCheckFor exampleWasher
      \<and> threeSlotPrices (dayNumber (timeAddDate testBase 0))
          = Some [testSlot 0 10, testSlot 1 10, testSlot 2 30]
      \<and> BestWindows (sort_key r_Score) [testSlot 0 10, testSlot 1 10, testSlot 2 30]
          (a_CycleMinutes exampleWasher) noConstraints (testOptions 1) 1
          = Inr (midnightWash # [])
      \<and> sunnyWeather (dayNumber (timeAddDate testBase 0)) = Some (Some sunnyForecast)
      \<and> wf_IsSunny sunnyForecast"
    by code_simp
  have cost: "r_CostGBP midnightWash = 1 / 10"
    by (simp add: midnightWash_def)
  from coupled_line_dry_and_best_option
         [OF exampleWasher_class exampleDryer_class,
          where dayOffset = 0 and now = testBase and pricesByDay = threeSlotPrices
            and prices = "[testSlot 0 10, testSlot 1 10, testSlot 2 30]"
            and sortSlice = "sort_key r_Score" and c = noConstraints
            and opts = "testOptions 1" and washerSlot = midnightWash and recs = "[]"
            and weatherByDay = sunnyWeather and forecast = sunnyForecast
            and nowLabel = testBase and h = exampleHousehold]
    hyp sunnyWeather_no_nil cost
  show ?thesis by fastforce
qed

subsection \<open>A successor run outside the price data\<close>

text \<open>
  Claim C10. In the coupled path, when no price slot supplied for the day starts in
  \<open>[successorStart, successorEnd)\<close>, \<open>estimateCost\<close> returns exactly 0; the call then
  returns a result (no error is reported for the missing prices; the only other outcome is
  the panic on a nil forecast pointer) holding a tumble-dry option whose coupled slot costs
  0 and whose total cost is the primary cost alone.
\<close>

theorem coupled_successor_without_prices_is_free:
  assumes "a_Class washer = ClassCoupled"
      and "0 \<le> dayOffset" and "dayOffset < daysToCheckFor washer"
      and "pricesByDay (dayNumber (timeAddDate now dayOffset)) = Some prices"
      and "BestWindows sortSlice prices (a_CycleMinutes washer) c opts 1
             = Inr (washerSlot # recs)"
      and "\<forall>p \<in> set prices.
             \<not> startsWithin (r_End washerSlot)
                 (timeAdd (r_End washerSlot) (a_CycleMinutes dryer * nsPerMinute)) p"
  shows "estimateCost prices (r_End washerSlot)
           (timeAdd (r_End washerSlot) (a_CycleMinutes dryer * nsPerMinute)) (a_EstKWh dryer)
           = 0
       \<and> ((\<exists>res. GenerateSmartRecommendations sortSlice now nowLabel washer (Some dryer)
                    pricesByDay weatherByDay h c opts = Inr res
                \<and> (\<exists>opt \<in> set (sr_Options res).
                      \<not> ro_UsesNaturalDry opt
                      \<and> ro_PrimarySlot opt = washerSlot
                      \<and> ro_CoupledSlot opt =
                          Some \<lparr>r_Start = r_End washerSlot,
                                r_End = timeAdd (r_End washerSlot)
                                          (a_CycleMinutes dryer * nsPerMinute),
                                r_CostGBP = 0, r_Reason = NoReason, r_Score = 0\<rparr>
                      \<and> ro_TotalCostGBP opt = r_CostGBP washerSlot))
           \<or> (GenerateSmartRecommendations sortSlice now nowLabel washer (Some dryer)
                 pricesByDay weatherByDay h c opts = Inl PanicNilPointer
               \<and> None \<in> ran weatherByDay))"
proof
  let ?G = "GenerateSmartRecommendations sortSlice now nowLabel washer (Some dryer)
              pricesByDay weatherByDay h c opts"
  let ?dryerEnd = "timeAdd (r_End washerSlot) (a_CycleMinutes dryer * nsPerMinute)"
  show zero: "estimateCost prices (r_End washerSlot) ?dryerEnd (a_EstKWh dryer) = 0"
    by (rule estimateCost_none) (rule assms(6))
  from coupled_result_on_feasible_day[where P = pricesByDay and W = weatherByDay
          and nowLabel = nowLabel and d = dryer and h = h, OF assms(1-5)]
  consider (panic) "?G = Inl PanicNilPointer" "None \<in> ran weatherByDay"
    | (ok) oF o1 o2 ys where
        "coupledDay sortSlice now nowLabel washer (Some dryer) pricesByDay weatherByDay c opts
           dayOffset o1 = Inr o2"
        "oF = o2 @ ys"
        "?G = Inr \<lparr>sr_ApplianceName = a_Name washer, sr_Options = oF,
                    sr_BestOptionIndex = bestIndexLoop oF 1 0\<rparr>"
    by blast
  then show "(\<exists>res. ?G = Inr res
                \<and> (\<exists>opt \<in> set (sr_Options res).
                      \<not> ro_UsesNaturalDry opt
                      \<and> ro_PrimarySlot opt = washerSlot
                      \<and> ro_CoupledSlot opt =
                          Some \<lparr>r_Start = r_End washerSlot, r_End = ?dryerEnd,
                                r_CostGBP = 0, r_Reason = NoReason, r_Score = 0\<rparr>
                      \<and> ro_TotalCostGBP opt = r_CostGBP washerSlot))
           \<or> (?G = Inl PanicNilPointer \<and> None \<in> ran weatherByDay)"
  proof cases
    case panic
    then show ?thesis by simp
  next
    case ok
    from coupledDay_feasible[OF assms(4,5) ok(1)] obtain zs w where
      "o2 = o1 @ tumbleDryOption (getDayName nowLabel dayOffset) (timeAddDate now dayOffset)
                   washerSlot dryer prices w o1 # zs"
      by blast
    with ok(2) have
      "tumbleDryOption (getDayName nowLabel dayOffset) (timeAddDate now dayOffset)
                   washerSlot dryer prices w o1 \<in> set oF"
      by simp
    moreover have "\<not> ro_UsesNaturalDry (tumbleDryOption dn cd washerSlot dryer prices w o1)
        \<and> ro_PrimarySlot (tumbleDryOption dn cd washerSlot dryer prices w o1) = washerSlot
        \<and> ro_CoupledSlot (tumbleDryOption dn cd washerSlot dryer prices w o1)
            = Some \<lparr>r_Start = r_End washerSlot, r_End = ?dryerEnd,
                                r_CostGBP = 0, r_Reason = NoReason, r_Score = 0\<rparr>
        \<and> ro_TotalCostGBP (tumbleDryOption dn cd washerSlot dryer prices w o1)
            = r_CostGBP washerSlot" for dn cd
      by (simp add: tumbleDryOption_def Let_def zero)
    ultimately show ?thesis using ok(3) by (intro disjI1) (simp, blast)
  qed
qed

text \<open>
  Witness for C10: the day's prices cover 00:00 to 01:00 only, the wash takes that hour,
  and the dryer's hour from 01:00 has no slot. The tumble-dry option costs the wash's
  0.10 pounds in total.
\<close>

theorem coupled_successor_without_prices_is_free_witness:
  "estimateCost [testSlot 0 10, testSlot 1 10] (r_End midnightWash)
     (timeAdd (r_End midnightWash) (a_CycleMinutes exampleDryer * nsPerMinute))
     (a_EstKWh exampleDryer) = 0
   \<and> (\<exists>res. GenerateSmartRecommendations (sort_key r_Score) testBase testBase exampleWasher
               (Some exampleDryer) twoSlotPrices sunnyWeather exampleHousehold noConstraints
               (testOptions 1) = Inr res
          \<and> (\<exists>opt \<in> set (sr_Options res).
                \<not> ro_UsesNaturalDry opt \<and> ro_TotalCostGBP opt = 1 / 10))"
proof -
  have d: "0 \<le> (0::int)" "0 < daysToCheckFor exampleWasher"
    by code_simp+
  have pr: "twoSlotPrices (dayNumber (timeAddDate testBase 0))
              = Some [testSlot 0 10, testSlot 1 10]"
    by code_simp
  have bw: "BestWindows (sort_key r_Score) [testSlot 0 10, testSlot 1 10]
              (a_CycleMinutes exampleWasher) noConstraints (testOptions 1) 1
              = Inr (midnightWash # [])"
    by code_simp
  have none: "\<forall>p \<in> set [testSlot 0 10, testSlot 1 10].
                \<not> startsWithin (r_End midnightWash)
                    (timeAdd (r_End midnightWash) (a_CycleMinutes exampleDryer * nsPerMinute))
                    p"
    by code_simp
  have cost: "r_CostGBP midnightWash = 1 / 10"
    by (simp add: midnightWash_def)
  from coupled_successor_without_prices_is_free
         [where pricesByDay = twoSlotPrices and weatherByDay = sunnyWeather
            and nowLabel = testBase and dryer = exampleDryer and h = exampleHousehold,
          OF exampleWasher_class d pr bw none]
    sunnyWeather_no_nil cost
  show ?thesis by fastforce
qed

subsection \<open>Dependence on the clock\<close>




section \<open>Overnight windows\<close>

lemma instant_split:
  "instant t = dayNumber t * nsPerDay + timeOfDay t - utcOffset t * nsPerSecond"
  by (simp add: dayNumber_def timeOfDay_def wallNanos_def)

lemma timeOfDay_range: "0 \<le> timeOfDay t \<and> timeOfDay t < nsPerDay"
  by (simp add: timeOfDay_def nsPerDay_def nsPerHour_def nsPerMinute_def nsPerSecond_def)

lemma dayMatches_iff: "dayMatches weekday ds \<longleftrightarrow> weekday \<in> set ds"
  by (induction ds) auto

text \<open>
  \<open>matchesTimeWindow\<close> in terms of the time of day: the day of the week fits and the time
  of day lies in \<open>[start, end)\<close>, where \<open>end\<close> is taken as \<open>end + 24h\<close> when it is
  before \<open>start\<close>.
\<close>

lemma matchesTimeWindow_timeOfDay:
  assumes "parseTimeOfDay (tw_Start w) = Some (sh, sm)"
      and "parseTimeOfDay (tw_End w) = Some (eh, em)"
  shows "matchesTimeWindow t w \<longleftrightarrow>
           (tw_DaysOfWeek w = []
            \<or> (if Weekday t = 0 then 7 else Weekday t) \<in> set (tw_DaysOfWeek w))
           \<and> int sh * nsPerHour + int sm * nsPerMinute \<le> timeOfDay t
           \<and> timeOfDay t <
               (if int eh * nsPerHour + int em * nsPerMinute
                     < int sh * nsPerHour + int sm * nsPerMinute
                then int eh * nsPerHour + int em * nsPerMinute + 24 * nsPerHour
                else int eh * nsPerHour + int em * nsPerMinute)"
  unfolding matchesTimeWindow_def Let_def assms
  by (auto simp: dayMatches_iff timeDateOn_def timeBefore_def timeAfter_def timeEqual_def
        timeAdd_def instant_split[of t])

text \<open>
  Since a time of day is below 24h, a window whose end is before its start matches from
  its start until midnight and never in the hours after midnight.
\<close>

lemma overnight_window_matches_only_before_midnight:
  assumes "parseTimeOfDay (tw_Start w) = Some (sh, sm)"
      and "parseTimeOfDay (tw_End w) = Some (eh, em)"
      and "int eh * nsPerHour + int em * nsPerMinute < int sh * nsPerHour + int sm * nsPerMinute"
  shows "matchesTimeWindow t w \<longleftrightarrow>
           (tw_DaysOfWeek w = []
            \<or> (if Weekday t = 0 then 7 else Weekday t) \<in> set (tw_DaysOfWeek w))
           \<and> int sh * nsPerHour + int sm * nsPerMinute \<le> timeOfDay t"
proof -
  have "timeOfDay t < int eh * nsPerHour + int em * nsPerMinute + 24 * nsPerHour"
    using timeOfDay_range[of t]
    by (simp add: nsPerDay_def nsPerHour_def nsPerMinute_def nsPerSecond_def)
  with assms(3) show ?thesis
    by (simp add: matchesTimeWindow_timeOfDay[OF assms(1,2)])
qed

text \<open>
  Claim C1 says that with noise level 4 and the quiet hours 22:00 to 07:00 no returned
  Recommendation starts inside 22:00 to 07:00, the hours after midnight included. On the
  input of the repository's own test case "60 minute run with quiet hours" (the 48 slots of
  2024-12-01, a 60 minute run, 1 kWh, top 3) the code returns three recommendations that
  start 180, 150 and 210 minutes after midnight: 03:00, 02:30 and 03:30, all inside the
  quiet hours. The test case expects the best start to be 14:00.
\<close>

theorem BestWindows_quiet_hours_after_midnight:
  "(case BestWindows (sort_key r_Score) testSlots 60 quietConstraints (testOptions 1) 3 of
      Inl err \<Rightarrow> []
    | Inr recs \<Rightarrow> map (\<lambda>r. timeOfDay (r_Start r) div nsPerMinute) recs)
     = [180, 150, 210]"
  by code_simp

end
